theory Spec2Isabelle
  imports Complex_Main
begin

section \<open>Numbers and buffers\<close>

text \<open>
  The engine of \<^verbatim>\<open>webgl3d.js\<close> computes with JavaScript numbers. They are embedded as
  exact reals: rounding, infinities and NaN are not part of the model. Where the source
  divides, the theorems below carry the hypotheses under which the divisor is not zero.
  A field of a planet record that may be absent is a \<open>real option\<close>, \<open>None\<close> for
  \<^verbatim>\<open>undefined\<close>.

  A \<^verbatim>\<open>Float32Array\<close> and a plain array of numbers are lists of reals. A write
  \<^verbatim>\<open>out[i] = v\<close> is \<open>out[i := v]\<close>; both leave a buffer alone when \<open>i\<close> is past its end.
\<close>

type_synonym buffer = "real list"

definition js_or :: "real option \<Rightarrow> real \<Rightarrow> real" where
  \<comment> \<open>\<^verbatim>\<open>x || d\<close> on a number that may be absent: \<^verbatim>\<open>undefined\<close> and \<^verbatim>\<open>0\<close> are falsy.\<close>
  "js_or x d = (case x of None \<Rightarrow> d | Some v \<Rightarrow> if v = 0 then d else v)"

definition js_gt :: "real option \<Rightarrow> real \<Rightarrow> bool" where
  \<comment> \<open>\<^verbatim>\<open>x > c\<close>: a comparison with \<^verbatim>\<open>undefined\<close> is false.\<close>
  "js_gt x c = (case x of None \<Rightarrow> False | Some v \<Rightarrow> v > c)"

section \<open>The matrix library\<close>

definition mat4_create :: buffer where
  "mat4_create = replicate 16 0"



definition perspective :: "buffer \<Rightarrow> real \<Rightarrow> real \<Rightarrow> real \<Rightarrow> real \<Rightarrow> buffer" where
  "perspective out fovy aspect near far =
     (let f = 1 / tan (fovy / 2) in
      out[0 := f / aspect, 1 := 0, 2 := 0, 3 := 0,
          4 := 0, 5 := f, 6 := 0, 7 := 0,
          8 := 0, 9 := 0, 10 := (far + near) / (near - far), 11 := - 1,
          12 := 0, 13 := 0, 14 := (2 * far * near) / (near - far), 15 := 0])"

text \<open>
  \<^verbatim>\<open>lookAt\<close> computes three vectors in turn, each from the ones before: \<open>lookAt_z\<close> is
  \<^verbatim>\<open>(z0, z1, z2)\<close> after \<^verbatim>\<open>z0 *= len\<close>, \<open>lookAt_x\<close> is \<^verbatim>\<open>(x0, x1, x2)\<close> after the branch on
  \<^verbatim>\<open>!len\<close>, \<open>lookAt_y\<close> is \<^verbatim>\<open>(y0, y1, y2)\<close>. The test \<^verbatim>\<open>!len\<close> holds for the number zero.
\<close>

definition lookAt_z :: "buffer \<Rightarrow> buffer \<Rightarrow> real \<times> real \<times> real" where
  "lookAt_z eye center =
     (let z0 = eye ! 0 - center ! 0; z1 = eye ! 1 - center ! 1; z2 = eye ! 2 - center ! 2;
          len = 1 / sqrt (z0 * z0 + z1 * z1 + z2 * z2)
      in (z0 * len, z1 * len, z2 * len))"

definition lookAt_x :: "buffer \<Rightarrow> buffer \<Rightarrow> buffer \<Rightarrow> real \<times> real \<times> real" where
  "lookAt_x eye center up =
     (let (z0, z1, z2) = lookAt_z eye center;
          upx = up ! 0; upy = up ! 1; upz = up ! 2;
          x0 = upy * z2 - upz * z1; x1 = upz * z0 - upx * z2; x2 = upx * z1 - upy * z0;
          len = sqrt (x0 * x0 + x1 * x1 + x2 * x2)
      in if len = 0 then (0, 0, 0)
         else (let len' = 1 / len in (x0 * len', x1 * len', x2 * len')))"

definition lookAt_y :: "buffer \<Rightarrow> buffer \<Rightarrow> buffer \<Rightarrow> real \<times> real \<times> real" where
  "lookAt_y eye center up =
     (let (z0, z1, z2) = lookAt_z eye center;
          (x0, x1, x2) = lookAt_x eye center up
      in (z1 * x2 - z2 * x1, z2 * x0 - z0 * x2, z0 * x1 - z1 * x0))"

definition lookAt :: "buffer \<Rightarrow> buffer \<Rightarrow> buffer \<Rightarrow> buffer \<Rightarrow> buffer" where
  "lookAt out eye center up =
     (let eyex = eye ! 0; eyey = eye ! 1; eyez = eye ! 2;
          (z0, z1, z2) = lookAt_z eye center;
          (x0, x1, x2) = lookAt_x eye center up;
          (y0, y1, y2) = lookAt_y eye center up
      in out[0 := x0, 1 := y0, 2 := z0, 3 := 0,
             4 := x1, 5 := y1, 6 := z1, 7 := 0,
             8 := x2, 9 := y2, 10 := z2, 11 := 0,
             12 := - (x0 * eyex + x1 * eyey + x2 * eyez),
             13 := - (y0 * eyex + y1 * eyey + y2 * eyez),
             14 := - (z0 * eyex + z1 * eyey + z2 * eyez),
             15 := 1])"






subsection \<open>How the vertex shader reads a matrix\<close>

text \<open>
  The matrices are uploaded with \<^verbatim>\<open>transpose = false\<close>, so the shader reads them column by
  column: entry \<open>(row r, column c)\<close> of a 4-by-4 matrix is \<open>m ! (4 * c + r)\<close>, of a 3-by-3
  matrix \<open>m ! (3 * c + r)\<close>. \<open>mat4_mul_vec4\<close> is the shader's \<^verbatim>\<open>projectionMatrix * vec4\<close>,
  \<open>ndc_depth\<close> the depth after the perspective division.
\<close>

definition mat4_mul_vec4 :: "buffer \<Rightarrow> buffer \<Rightarrow> buffer" where
  "mat4_mul_vec4 m v =
     [m ! 0 * v ! 0 + m ! 4 * v ! 1 + m ! 8 * v ! 2 + m ! 12 * v ! 3,
      m ! 1 * v ! 0 + m ! 5 * v ! 1 + m ! 9 * v ! 2 + m ! 13 * v ! 3,
      m ! 2 * v ! 0 + m ! 6 * v ! 1 + m ! 10 * v ! 2 + m ! 14 * v ! 3,
      m ! 3 * v ! 0 + m ! 7 * v ! 1 + m ! 11 * v ! 2 + m ! 15 * v ! 3]"

definition ndc_depth :: "buffer \<Rightarrow> real" where
  "ndc_depth clip = clip ! 2 / clip ! 3"

definition mat4_row3 :: "buffer \<Rightarrow> nat \<Rightarrow> real \<times> real \<times> real" where
  \<comment> \<open>The first three entries of row \<open>r\<close> of a 4-by-4 matrix.\<close>
  "mat4_row3 m r = (m ! r, m ! (4 + r), m ! (8 + r))"

definition mat4_col3 :: "buffer \<Rightarrow> nat \<Rightarrow> real \<times> real \<times> real" where
  \<comment> \<open>The first three entries of column \<open>c\<close> of a 4-by-4 matrix.\<close>
  "mat4_col3 m c = (m ! (4 * c), m ! (4 * c + 1), m ! (4 * c + 2))"

definition dot3 :: "real \<times> real \<times> real \<Rightarrow> real \<times> real \<times> real \<Rightarrow> real" where
  "dot3 u v = (case u of (u0, u1, u2) \<Rightarrow> case v of (v0, v1, v2) \<Rightarrow> u0 * v0 + u1 * v1 + u2 * v2)"

definition cross3 :: "real \<times> real \<times> real \<Rightarrow> real \<times> real \<times> real \<Rightarrow> real \<times> real \<times> real" where
  "cross3 u v =
     (case u of (u0, u1, u2) \<Rightarrow> case v of (v0, v1, v2) \<Rightarrow>
        (u1 * v2 - u2 * v1, u2 * v0 - u0 * v2, u0 * v1 - u1 * v0))"

definition orthonormal3 ::
  "real \<times> real \<times> real \<Rightarrow> real \<times> real \<times> real \<Rightarrow> real \<times> real \<times> real \<Rightarrow> bool" where
  \<comment> \<open>Three vectors of length one, perpendicular to one another.\<close>
  "orthonormal3 u v w =
     (dot3 u u = 1 \<and> dot3 v v = 1 \<and> dot3 w w = 1 \<and> dot3 u v = 0 \<and> dot3 u w = 0 \<and> dot3 v w = 0)"

definition vec3 :: "buffer \<Rightarrow> real \<times> real \<times> real" where
  "vec3 v = (v ! 0, v ! 1, v ! 2)"

definition sub3 :: "real \<times> real \<times> real \<Rightarrow> real \<times> real \<times> real \<Rightarrow> real \<times> real \<times> real" where
  "sub3 u v = (case u of (u0, u1, u2) \<Rightarrow> case v of (v0, v1, v2) \<Rightarrow> (u0 - v0, u1 - v1, u2 - v2))"

definition scale3 :: "real \<Rightarrow> real \<times> real \<times> real \<Rightarrow> real \<times> real \<times> real" where
  "scale3 k u = (case u of (u0, u1, u2) \<Rightarrow> (u0 * k, u1 * k, u2 * k))"











section \<open>The orbit camera\<close>

record camera_controls =
  distance :: real
  minDistance :: real
  maxDistance :: real
  azimuth :: real
  elevation :: real
  targetAzimuth :: real
  targetElevation :: real
  targetDistance :: real
  damping :: real
  autoRotate :: bool
  autoRotateSpeed :: real

record mouse_state =
  isDown :: bool
  lastX :: real
  lastY :: real
  sensitivity :: real

record camera =
  camera_position :: buffer
  camera_target :: buffer
  camera_up :: buffer
  camera_fov :: real
  camera_near :: real
  camera_far :: real

record planet_system =
  time :: real
  lastFrameTime :: real
  orbitSpeed :: real
  cameraControls :: camera_controls
  mouse :: mouse_state
  camera :: camera
  viewMatrix :: buffer

text \<open>The state the constructor builds, before the first frame.\<close>

definition constructor :: planet_system where
  "constructor =
     \<lparr> time = 0, lastFrameTime = 0, orbitSpeed = 10,
       cameraControls =
         \<lparr> distance = 12, minDistance = 3, maxDistance = 40, azimuth = 0, elevation = 0.3,
           targetAzimuth = 0, targetElevation = 0.3, targetDistance = 12, damping = 0.1,
           autoRotate = True, autoRotateSpeed = 0.15 \<rparr>,
       mouse = \<lparr> isDown = False, lastX = 0, lastY = 0, sensitivity = 0.005 \<rparr>,
       camera =
         \<lparr> camera_position = [8, 5, 8], camera_target = [0, 0, 0], camera_up = [0, 1, 0],
           camera_fov = 80, camera_near = 0.1, camera_far = 500 \<rparr>,
       viewMatrix = mat4_create \<rparr>"

subsection \<open>Input handlers of \<^verbatim>\<open>setupControls\<close>\<close>

text \<open>Two listeners are registered for \<^verbatim>\<open>mousedown\<close>; they run in registration order.\<close>

definition mousedown :: "real \<Rightarrow> real \<Rightarrow> planet_system \<Rightarrow> planet_system" where
  "mousedown clientX clientY s =
     (let s1 = s\<lparr>mouse := (mouse s)\<lparr>isDown := True, lastX := clientX, lastY := clientY\<rparr>\<rparr>;
          s2 = s1\<lparr>mouse := (mouse s1)\<lparr>isDown := True, lastX := clientX, lastY := clientY\<rparr>\<rparr>
      in s2\<lparr>cameraControls := (cameraControls s2)\<lparr>autoRotate := False\<rparr>\<rparr>)"

definition mousemove :: "real \<Rightarrow> real \<Rightarrow> planet_system \<Rightarrow> planet_system" where
  "mousemove clientX clientY s =
     (if \<not> isDown (mouse s) then s
      else
        (let deltaX = clientX - lastX (mouse s);
             deltaY = clientY - lastY (mouse s);
             c = cameraControls s;
             c1 = c\<lparr>targetAzimuth := targetAzimuth c - deltaX * sensitivity (mouse s)\<rparr>;
             c2 = c1\<lparr>targetElevation := targetElevation c1 + deltaY * sensitivity (mouse s)\<rparr>
         in s\<lparr>cameraControls := c2, mouse := (mouse s)\<lparr>lastX := clientX, lastY := clientY\<rparr>\<rparr>))"

definition mouseup :: "planet_system \<Rightarrow> planet_system" where
  "mouseup s = s\<lparr>mouse := (mouse s)\<lparr>isDown := False\<rparr>\<rparr>"

definition mouseleave :: "planet_system \<Rightarrow> planet_system" where
  "mouseleave s = s\<lparr>mouse := (mouse s)\<lparr>isDown := False\<rparr>\<rparr>"

definition wheel :: "real \<Rightarrow> planet_system \<Rightarrow> planet_system" where
  "wheel deltaY s =
     (let zoomSpeed = 0.1;
          delta = (if deltaY > 0 then 1 else - 1);
          c = cameraControls s;
          c1 = c\<lparr>targetDistance := targetDistance c * (1 + delta * zoomSpeed)\<rparr>;
          c2 = c1\<lparr>targetDistance :=
                    max (minDistance c1) (min (maxDistance c1) (targetDistance c1))\<rparr>
      in s\<lparr>cameraControls := c2\<lparr>autoRotate := False\<rparr>\<rparr>)"

definition dblclick :: "planet_system \<Rightarrow> planet_system" where
  "dblclick s =
     s\<lparr>cameraControls := (cameraControls s)
          \<lparr>targetDistance := 12, targetAzimuth := 0, targetElevation := 0.3,
           autoRotate := True\<rparr>\<rparr>"

subsection \<open>The per-frame update\<close>

definition updateCamera :: "planet_system \<Rightarrow> planet_system" where
  "updateCamera s =
     (let c = cameraControls s;
          c1 = c\<lparr>azimuth := azimuth c + (targetAzimuth c - azimuth c) * damping c\<rparr>;
          c2 = c1\<lparr>elevation := elevation c1 + (targetElevation c1 - elevation c1) * damping c1\<rparr>;
          c3 = c2\<lparr>distance := distance c2 + (targetDistance c2 - distance c2) * damping c2\<rparr>;
          c4 = (if autoRotate c3
                then c3\<lparr>targetAzimuth := time s * autoRotateSpeed c3 * 2,
                        targetElevation := 0.3 + sin (time s * 0.1) * 0.15\<rparr>
                else c3);
          x = distance c4 * cos (elevation c4) * cos (azimuth c4);
          y = distance c4 * sin (elevation c4);
          z = distance c4 * cos (elevation c4) * sin (azimuth c4);
          cam = (camera s)\<lparr>camera_position := (camera_position (camera s))[0 := x, 1 := y, 2 := z]\<rparr>
      in s\<lparr>cameraControls := c4, camera := cam,
           viewMatrix := lookAt (viewMatrix s) (camera_position cam) (camera_target cam)
                           (camera_up cam)\<rparr>)"

text \<open>
  \<^verbatim>\<open>animate\<close> reads the clock (\<open>now\<close>, in milliseconds), advances \<open>time\<close> and updates the
  camera. The projection update and the draw calls that follow write no field of the
  camera controls and are left out of the step.
\<close>

definition animate :: "real \<Rightarrow> planet_system \<Rightarrow> planet_system" where
  "animate now s =
     (let deltaTime = (now - lastFrameTime s) / 1000;
          s1 = s\<lparr>lastFrameTime := now\<rparr>;
          s2 = s1\<lparr>time := time s1 + deltaTime\<rparr>
      in updateCamera s2)"

datatype event =
    MouseDown real real
  | MouseMove real real
  | MouseUp
  | MouseLeave
  | Wheel real
  | DblClick
  | Frame real

fun handle :: "event \<Rightarrow> planet_system \<Rightarrow> planet_system" where
  "handle (MouseDown x y) s = mousedown x y s"
| "handle (MouseMove x y) s = mousemove x y s"
| "handle MouseUp s = mouseup s"
| "handle MouseLeave s = mouseleave s"
| "handle (Wheel deltaY) s = wheel deltaY s"
| "handle DblClick s = dblclick s"
| "handle (Frame now) s = animate now s"

text \<open>The host delivers events one at a time: a run is a left fold over the event list.\<close>

definition run :: "event list \<Rightarrow> planet_system \<Rightarrow> planet_system" where
  "run es s = fold handle es s"

subsection \<open>Runs of frames and the damped coordinates\<close>

definition frames :: "real list \<Rightarrow> planet_system \<Rightarrow> planet_system" where
  \<comment> \<open>Frames only, one per clock reading.\<close>
  "frames nows s = run (map Frame nows) s"

datatype channel = Azimuth | Elevation | Distance

fun current :: "channel \<Rightarrow> camera_controls \<Rightarrow> real" where
  "current Azimuth c = azimuth c"
| "current Elevation c = elevation c"
| "current Distance c = distance c"

fun target :: "channel \<Rightarrow> camera_controls \<Rightarrow> real" where
  "target Azimuth c = targetAzimuth c"
| "target Elevation c = targetElevation c"
| "target Distance c = targetDistance c"

definition gap :: "channel \<Rightarrow> planet_system \<Rightarrow> real" where
  \<comment> \<open>\<open>|current - target|\<close> of a damped coordinate.\<close>
  "gap ch s = \<bar>current ch (cameraControls s) - target ch (cameraControls s)\<bar>"

definition camera_inv :: "planet_system \<Rightarrow> bool" where
  "camera_inv s =
     (let c = cameraControls s in
      minDistance c = 3 \<and> maxDistance c = 40 \<and> damping c = 0.1 \<and>
      3 \<le> distance c \<and> distance c \<le> 40 \<and> 3 \<le> targetDistance c \<and> targetDistance c \<le> 40)"

definition wheel_target_spec :: "real \<Rightarrow> camera_controls \<Rightarrow> real" where
  \<comment> \<open>The wheel rule in the specification's words: multiply by \<open>1 + sign(deltaY) * 0.1\<close>,
      then clamp. Compared with \<open>wheel\<close> below.\<close>
  "wheel_target_spec deltaY c =
     max (minDistance c) (min (maxDistance c) (targetDistance c * (1 + sgn deltaY * 0.1)))"

section \<open>The scene\<close>

text \<open>
  A planet record, with the fields the engine reads. The loader stores a number in each;
  the engine guards some of them with \<^verbatim>\<open>||\<close>, so a field may also be absent.
\<close>

record planet =
  period_days :: "real option"
  a_over_rstar :: "real option"
  radius_rearth :: "real option"
  eq_temp_k :: "real option"
  teff_k :: "real option"
  star_rad_rsun :: "real option"

definition toi700d :: planet where
  \<comment> \<open>The record \<^verbatim>\<open>loadCSVData\<close> falls back to.\<close>
  "toi700d = \<lparr> period_days = Some 37.426, a_over_rstar = Some 0.163, radius_rearth = Some 1.07,
       eq_temp_k = Some 268, teff_k = Some 3480, star_rad_rsun = Some 0.42 \<rparr>"

subsection \<open>\<^verbatim>\<open>drawPlanet\<close>: where the planet is\<close>

definition drawPlanet_orbitRadius :: "planet \<Rightarrow> real" where
  "drawPlanet_orbitRadius p = max 3.0 (min 7 (js_or (a_over_rstar p) 10 * 0.2))"

definition drawPlanet_orbitAngle :: "planet_system \<Rightarrow> planet \<Rightarrow> real" where
  "drawPlanet_orbitAngle s p = time s * orbitSpeed s / js_or (period_days p) 1"

definition drawPlanet_position :: "planet_system \<Rightarrow> planet \<Rightarrow> buffer" where
  \<comment> \<open>The vector \<^verbatim>\<open>[planetX, planetY, planetZ]\<close> handed to \<^verbatim>\<open>translate\<close>.\<close>
  "drawPlanet_position s p =
     (let orbitRadius = drawPlanet_orbitRadius p;
          orbitAngle = drawPlanet_orbitAngle s p;
          planetX = cos orbitAngle * orbitRadius;
          planetZ = sin orbitAngle * orbitRadius;
          planetY = 0
      in [planetX, planetY, planetZ])"



subsection \<open>\<^verbatim>\<open>drawStar\<close>\<close>



subsection \<open>Colours\<close>

definition getStarColor :: "real option \<Rightarrow> buffer" where
  "getStarColor teff =
     (if js_gt teff 6000 then [1.0, 1.0, 1.0]
      else if js_gt teff 5000 then [1.0, 1.0, 0.7]
      else if js_gt teff 4000 then [1.0, 0.6, 0.3]
      else if js_gt teff 3000 then [1.0, 0.3, 0.3]
      else [0.8, 0.2, 0.2])"

definition getPlanetColor :: "real option \<Rightarrow> buffer" where
  "getPlanetColor eqTemp =
     (if js_gt eqTemp 1000 then [1.0, 0.4, 0.4]
      else if js_gt eqTemp 500 then [1.0, 0.6, 0.3]
      else if js_gt eqTemp 273 then [0.4, 0.6, 1.0]
      else if js_gt eqTemp 200 then [0.6, 0.6, 1.0]
      else [0.7, 0.7, 0.7])"

definition starColor_inclusive :: "real \<Rightarrow> buffer" where
  \<comment> \<open>The star table read with inclusive lower bounds, as the specification words it.
      Compared with \<open>getStarColor\<close> below.\<close>
  "starColor_inclusive teff =
     (if teff \<ge> 6000 then [1.0, 1.0, 1.0]
      else if teff \<ge> 5000 then [1.0, 1.0, 0.7]
      else if teff \<ge> 4000 then [1.0, 0.6, 0.3]
      else if teff \<ge> 3000 then [1.0, 0.3, 0.3]
      else [0.8, 0.2, 0.2])"

definition planetColor_inclusive :: "real \<Rightarrow> buffer" where
  \<comment> \<open>The planet table read with inclusive lower bounds, as the specification words it.\<close>
  "planetColor_inclusive eqTemp =
     (if eqTemp \<ge> 1000 then [1.0, 0.4, 0.4]
      else if eqTemp \<ge> 500 then [1.0, 0.6, 0.3]
      else if eqTemp \<ge> 273 then [0.4, 0.6, 1.0]
      else if eqTemp \<ge> 200 then [0.6, 0.6, 1.0]
      else [0.7, 0.7, 0.7])"

subsection \<open>\<^verbatim>\<open>createSphere\<close>\<close>

text \<open>
  The segment and ring counts are natural numbers (the engine calls
  \<^verbatim>\<open>createSphere(1, 64, 32)\<close>). Each \<^verbatim>\<open>for\<close> loop is a fold over the range of its counter;
  \<^verbatim>\<open>push\<close> appends.
\<close>

record mesh =
  positions :: buffer
  normals :: buffer
  uvs :: buffer
  indices :: "nat list"

definition sphere_vertex :: "real \<Rightarrow> nat \<Rightarrow> nat \<Rightarrow> nat \<Rightarrow> real \<Rightarrow> real \<Rightarrow> nat \<Rightarrow> mesh \<Rightarrow> mesh" where
  \<comment> \<open>The body of the inner loop over \<open>j\<close> of the first nest.\<close>
  "sphere_vertex radius segments rings i z zr j m =
     (let lng = 2 * pi * (real j / real segments);
          x = cos lng * zr;
          y = sin lng * zr
      in m\<lparr>positions := positions m @ [x * radius, z * radius, y * radius],
           normals := normals m @ [x, z, y],
           uvs := uvs m @ [1 - real j / real segments, 1 - real i / real rings]\<rparr>)"

definition sphere_ring :: "real \<Rightarrow> nat \<Rightarrow> nat \<Rightarrow> nat \<Rightarrow> mesh \<Rightarrow> mesh" where
  \<comment> \<open>The body of the outer loop over \<open>i\<close> of the first nest.\<close>
  "sphere_ring radius segments rings i m =
     (let lat = pi * (- 0.5 + real i / real rings);
          z = sin lat;
          zr = cos lat
      in fold (sphere_vertex radius segments rings i z zr) [0..<Suc segments] m)"

definition sphere_quad :: "nat \<Rightarrow> nat \<Rightarrow> nat \<Rightarrow> mesh \<Rightarrow> mesh" where
  \<comment> \<open>The body of the inner loop of the second nest: two triangles.\<close>
  "sphere_quad segments i j m =
     (let first = i * (segments + 1) + j;
          second = first + segments + 1
      in m\<lparr>indices := (indices m @ [first, second, first + 1]) @ [second, second + 1, first + 1]\<rparr>)"

definition quad_indices :: "nat \<Rightarrow> nat \<Rightarrow> nat \<Rightarrow> nat list" where
  \<comment> \<open>The six indices one pass of the inner loop pushes.\<close>
  "quad_indices segments i j =
     (let first = i * (segments + 1) + j; second = first + segments + 1
      in [first, second, first + 1, second, second + 1, first + 1])"

definition createSphere :: "real \<Rightarrow> nat \<Rightarrow> nat \<Rightarrow> mesh" where
  "createSphere radius segments rings =
     (let m0 = \<lparr>positions = [], normals = [], uvs = [], indices = []\<rparr>;
          m1 = fold (sphere_ring radius segments rings) [0..<Suc rings] m0
      in fold (\<lambda>i. fold (sphere_quad segments i) [0..<segments]) [0..<rings] m1)"

definition vertex_count :: "mesh \<Rightarrow> nat" where
  \<comment> \<open>Three position floats per vertex.\<close>
  "vertex_count m = length (positions m) div 3"

section \<open>The camera: input handlers and damping\<close>

lemma run_snoc: "run (es @ [e]) s = handle e (run es s)"
  by (simp add: run_def)

lemma run_Cons: "run (e # es) s = run es (handle e s)"
  by (simp add: run_def)

lemma run_Nil: "run [] s = s"
  by (simp add: run_def)

text \<open>
  Claim C8. Whatever events came before (a drag that switched auto-rotation off, wheel
  turns, frames) and whatever the state was, after a double-click \<open>autoRotate\<close> is on and
  the target distance, azimuth and elevation are 12, 0 and 0.3.
\<close>

theorem dblclick_resets:
  "let c = cameraControls (run (es @ [DblClick]) s) in
     autoRotate c \<and> targetDistance c = 12 \<and> targetAzimuth c = 0 \<and> targetElevation c = 0.3"
  by (simp add: run_snoc dblclick_def)

text \<open>The scenario of the claim: a drag switches auto-rotation off, the double-click
  switches it on again.\<close>

lemma dblclick_after_drag:
  "\<not> autoRotate (cameraControls (run [MouseDown 10 10, MouseMove 30 20, MouseUp] constructor)) \<and>
   autoRotate (cameraControls (run [MouseDown 10 10, MouseMove 30 20, MouseUp, DblClick] constructor))"
  by (simp add: run_def mousedown_def mousemove_def mouseup_def dblclick_def constructor_def Let_def)

text \<open>
  Claim C2, as stated, at a wheel event with \<open>deltaY = 0\<close> (a horizontal scroll) from the
  initial state: \<open>sign(0) = 0\<close>, so the stated rule keeps the target distance at 12; the
  handler takes the branch \<^verbatim>\<open>-1\<close> of \<^verbatim>\<open>e.deltaY > 0 ? 1 : -1\<close> and moves it to 10.8.
\<close>

theorem wheel_sign_counterexample:
  "targetDistance (cameraControls (wheel 0 constructor)) = 10.8 \<and>
   wheel_target_spec 0 (cameraControls constructor) = 12"
  by (simp add: wheel_def wheel_target_spec_def constructor_def Let_def)

text \<open>
  Claim C2, amended. With \<open>minDistance = 3\<close> and \<open>maxDistance = 40\<close>, every wheel event
  multiplies the target distance by 1.1 when \<open>deltaY > 0\<close> and by 0.9 otherwise, then clamps
  it to \<open>[3, 40]\<close>. For \<open>deltaY \<noteq> 0\<close> the factor is \<open>1 + sign(deltaY) * 0.1\<close>; the result
  always lies in \<open>[3, 40]\<close>.
\<close>

theorem wheel_clamped:
  assumes "minDistance (cameraControls s) = 3" and "maxDistance (cameraControls s) = 40"
  shows "targetDistance (cameraControls (wheel deltaY s)) =
           max 3 (min 40 (targetDistance (cameraControls s) * (if deltaY > 0 then 1.1 else 0.9)))
         \<and> (deltaY \<noteq> 0 \<longrightarrow> targetDistance (cameraControls (wheel deltaY s)) =
                wheel_target_spec deltaY (cameraControls s))
         \<and> 3 \<le> targetDistance (cameraControls (wheel deltaY s))
         \<and> targetDistance (cameraControls (wheel deltaY s)) \<le> 40"
  using assms by (simp add: wheel_def wheel_target_spec_def Let_def sgn_real_def)

text \<open>The amended C2 at the initial state and one notch of a wheel (\<open>deltaY = 120\<close>).\<close>

theorem wheel_clamped_witness:
  "minDistance (cameraControls constructor) = 3 \<and> maxDistance (cameraControls constructor) = 40 \<and>
   (120::real) \<noteq> 0 \<and>
   targetDistance (cameraControls (wheel 120 constructor)) = 13.2 \<and>
   wheel_target_spec 120 (cameraControls constructor) = 13.2"
proof -
  have a: "minDistance (cameraControls constructor) = 3" by (simp add: constructor_def)
  have b: "maxDistance (cameraControls constructor) = 40" by (simp add: constructor_def)
  have c: "targetDistance (cameraControls constructor) = 12" by (simp add: constructor_def)
  show ?thesis using wheel_clamped [OF a b, of 120] a b c by simp
qed

subsection \<open>The distance stays in range\<close>

lemma updateCamera_controls:
  "cameraControls (updateCamera s) =
     (let c = cameraControls s;
          c3 = c\<lparr>azimuth := azimuth c + (targetAzimuth c - azimuth c) * damping c,
                 elevation := elevation c + (targetElevation c - elevation c) * damping c,
                 distance := distance c + (targetDistance c - distance c) * damping c\<rparr>
      in if autoRotate c
         then c3\<lparr>targetAzimuth := time s * autoRotateSpeed c * 2,
                 targetElevation := 0.3 + sin (time s * 0.1) * 0.15\<rparr>
         else c3)"
  by (simp add: updateCamera_def Let_def)

lemma animate_controls:
  "cameraControls (animate now s) =
     cameraControls (updateCamera (s\<lparr>lastFrameTime := now, time := time s + (now - lastFrameTime s) / 1000\<rparr>))"
  by (simp add: animate_def Let_def)

lemma damp_in_range:
  fixes d t k lo hi :: real
  assumes "k = 1 / 10" "lo \<le> d" "d \<le> hi" "lo \<le> t" "t \<le> hi"
  shows "lo \<le> d + (t - d) * k \<and> d + (t - d) * k \<le> hi"
proof -
  have e: "d + (t - d) * k = (9 * d + t) / 10"
    unfolding assms(1) by (simp add: field_simps)
  show ?thesis unfolding e using assms(2-5) by auto
qed

lemma camera_inv_animate:
  assumes "camera_inv s"
  shows "camera_inv (animate now s)"
proof -
  let ?c = "cameraControls s"
  from assms have k: "damping ?c = 1 / 10" and r: "3 \<le> distance ?c" "distance ?c \<le> 40"
      "3 \<le> targetDistance ?c" "targetDistance ?c \<le> 40"
    by (simp_all add: camera_inv_def Let_def)
  from damp_in_range [OF k r]
  have "3 \<le> distance ?c + (targetDistance ?c - distance ?c) * damping ?c"
    and "distance ?c + (targetDistance ?c - distance ?c) * damping ?c \<le> 40"
    by simp_all
  with assms show ?thesis
    by (simp add: camera_inv_def animate_controls updateCamera_controls Let_def)
qed

lemma camera_inv_handle: "camera_inv s \<Longrightarrow> camera_inv (handle e s)"
proof (cases e)
  case (Frame now)
  assume "camera_inv s"
  then show ?thesis unfolding Frame by (simp add: camera_inv_animate)
qed (auto simp add: camera_inv_def mousedown_def mousemove_def mouseup_def mouseleave_def
        wheel_def dblclick_def Let_def)

lemma camera_inv_run: "camera_inv s \<Longrightarrow> camera_inv (run es s)"
  by (induction es arbitrary: s) (simp_all add: run_Nil run_Cons camera_inv_handle)

lemma camera_inv_constructor: "camera_inv constructor"
  by (simp add: camera_inv_def constructor_def)

text \<open>
  Claim C10. In every state reached from the constructor's state by any sequence of
  frames, wheel events, double-clicks and mouse events, the current and the target
  distance both lie in \<open>[3, 40]\<close>.
\<close>

theorem distance_always_in_range:
  "let c = cameraControls (run es constructor) in
     3 \<le> distance c \<and> distance c \<le> 40 \<and> 3 \<le> targetDistance c \<and> targetDistance c \<le> 40"
  using camera_inv_run [OF camera_inv_constructor, of es] by (simp add: camera_inv_def Let_def)

subsection \<open>Damping towards a fixed target\<close>

lemma frames_snoc: "frames (nows @ [now]) s = animate now (frames nows s)"
  by (simp add: frames_def run_snoc)

lemma animate_keeps:
  "autoRotate (cameraControls (animate now s)) = autoRotate (cameraControls s)"
  "damping (cameraControls (animate now s)) = damping (cameraControls s)"
  by (simp_all add: animate_controls updateCamera_controls Let_def)

lemma animate_damps:
  assumes "autoRotate (cameraControls s) \<longrightarrow> ch = Distance"
  shows "target ch (cameraControls (animate now s)) = target ch (cameraControls s)"
    and "current ch (cameraControls (animate now s)) - target ch (cameraControls s) =
           (current ch (cameraControls s) - target ch (cameraControls s)) *
             (1 - damping (cameraControls s))"
  using assms
  by (cases ch; simp add: animate_controls updateCamera_controls Let_def algebra_simps)+

lemma frames_fixed_target:
  assumes "autoRotate (cameraControls s) \<longrightarrow> ch = Distance"
    and "damping (cameraControls s) = 1 / 10"
  shows "autoRotate (cameraControls (frames nows s)) = autoRotate (cameraControls s) \<and>
         damping (cameraControls (frames nows s)) = 1 / 10 \<and>
         target ch (cameraControls (frames nows s)) = target ch (cameraControls s) \<and>
         gap ch (frames nows s) = (9 / 10) ^ length nows * gap ch s"
proof (induction nows rule: rev_induct)
  case Nil
  show ?case using assms by (simp add: frames_def run_Nil)
next
  case (snoc now nows)
  let ?s = "frames nows s"
  from snoc have a: "autoRotate (cameraControls ?s) = autoRotate (cameraControls s)"
    and k: "damping (cameraControls ?s) = 1 / 10"
    and t: "target ch (cameraControls ?s) = target ch (cameraControls s)"
    and g: "gap ch ?s = (9 / 10) ^ length nows * gap ch s"
    by simp_all
  from a assms(1) have m: "autoRotate (cameraControls ?s) \<longrightarrow> ch = Distance" by simp
  have "current ch (cameraControls (animate now ?s)) - target ch (cameraControls (animate now ?s)) =
        (current ch (cameraControls ?s) - target ch (cameraControls ?s)) * (9 / 10)"
    using animate_damps [OF m, where now = now] k by simp
  then have "gap ch (animate now ?s) = 9 / 10 * gap ch ?s"
    unfolding gap_def by (simp only: abs_mult)
  with g animate_keeps [of now ?s] animate_damps(1) [OF m, where now = now] a k t show ?case
    by (simp add: frames_snoc)
qed

lemma geometric_below:
  fixes g eps :: real
  assumes "0 \<le> g" "0 < eps"
  shows "\<exists>N. \<forall>n\<ge>N. (9 / 10) ^ n * g < eps"
proof (cases "g = 0")
  case True
  with assms show ?thesis by simp
next
  case False
  with assms have gp: "0 < g" by simp
  then have "0 < eps / g" using assms by simp
  from real_arch_pow_inv [OF this, of "9 / 10"] obtain N where N: "(9 / 10 :: real) ^ N < eps / g"
    by auto
  have "\<forall>n\<ge>N. (9 / 10) ^ n * g < eps"
  proof (intro allI impI)
    fix n assume "N \<le> n"
    then have "(9 / 10 :: real) ^ n \<le> (9 / 10) ^ N"
      by (intro power_decreasing) simp_all
    from this N have "(9 / 10 :: real) ^ n < eps / g" by (rule le_less_trans)
    with gp show "(9 / 10) ^ n * g < eps" by (simp add: pos_less_divide_eq)
  qed
  then show ?thesis ..
qed

text \<open>
  Claim C1. With damping factor 0.1, take one of azimuth, elevation and distance whose
  target no frame moves: any of them while auto-rotation is off, the distance in any case.
  Then the target stays where it is; after \<open>n\<close> frames \<open>|current - target|\<close> is \<open>0.9 ^ n\<close> times
  what it was, so it never grows from one frame to the next, shrinks strictly while it is not
  zero, and for every \<open>eps > 0\<close> there is a number of frames after which it stays below \<open>eps\<close>.
\<close>

theorem damping_converges:
  assumes "damping (cameraControls s) = 0.1"
    and "autoRotate (cameraControls s) \<longrightarrow> ch = Distance"
  shows "target ch (cameraControls (frames nows s)) = target ch (cameraControls s)
       \<and> gap ch (frames nows s) = (9 / 10) ^ length nows * gap ch s
       \<and> gap ch (frames (nows @ [now]) s) \<le> gap ch (frames nows s)
       \<and> (0 < gap ch s \<longrightarrow> gap ch (frames (nows @ [now]) s) < gap ch (frames nows s))
       \<and> (0 < eps \<longrightarrow> (\<exists>N. \<forall>ts. N \<le> length ts \<longrightarrow> gap ch (frames ts s) < eps))"
proof -
  from assms(1) have k: "damping (cameraControls s) = 1 / 10" by simp
  note f = frames_fixed_target [OF assms(2) k]
  have g0: "0 \<le> gap ch s" by (simp add: gap_def)
  have step: "gap ch (frames (nows @ [now]) s) = 9 / 10 * gap ch (frames nows s)"
    using f [of "nows @ [now]"] f [of nows] by simp
  have nn: "0 \<le> gap ch (frames nows s)" by (simp add: gap_def)
  have c3: "gap ch (frames (nows @ [now]) s) \<le> gap ch (frames nows s)"
    unfolding step using nn by simp
  have c4: "0 < gap ch s \<longrightarrow> gap ch (frames (nows @ [now]) s) < gap ch (frames nows s)"
  proof
    assume "0 < gap ch s"
    then have "0 < gap ch (frames nows s)" using f [of nows] by simp
    then show "gap ch (frames (nows @ [now]) s) < gap ch (frames nows s)"
      unfolding step by simp
  qed
  have c5: "0 < eps \<longrightarrow> (\<exists>N. \<forall>ts. N \<le> length ts \<longrightarrow> gap ch (frames ts s) < eps)"
  proof
    assume "0 < eps"
    from geometric_below [OF g0 this] obtain N where "\<forall>n\<ge>N. (9 / 10) ^ n * gap ch s < eps" ..
    then have "\<forall>ts. N \<le> length ts \<longrightarrow> gap ch (frames ts s) < eps"
      using f by simp
    then show "\<exists>N. \<forall>ts. N \<le> length ts \<longrightarrow> gap ch (frames ts s) < eps" ..
  qed
  from f [of nows] c3 c4 c5 show ?thesis by simp
qed

text \<open>
  C1 for the distance after one wheel notch from the initial state (target 13.2, distance
  12: two frames bring the gap from 1.2 to 0.972), and for the azimuth after a drag of 100
  pixels to the right (target \<open>-0.5\<close>, azimuth 0).
\<close>

theorem damping_converges_witness:
  "damping (cameraControls (wheel 120 constructor)) = 0.1 \<and>
   \<not> autoRotate (cameraControls (wheel 120 constructor)) \<and>
   0 < gap Distance (wheel 120 constructor) \<and> (0 :: real) < 1 / 100 \<and>
   targetDistance (cameraControls (frames [16, 32] (wheel 120 constructor))) = 13.2 \<and>
   gap Distance (frames [16, 32] (wheel 120 constructor)) = 0.972 \<and>
   gap Distance (frames ([16, 32] @ [48]) (wheel 120 constructor))
     < gap Distance (frames [16, 32] (wheel 120 constructor)) \<and>
   (\<exists>N. \<forall>ts. N \<le> length ts \<longrightarrow> gap Distance (frames ts (wheel 120 constructor)) < 1 / 100) \<and>
   \<not> autoRotate (cameraControls (run [MouseDown 0 0, MouseMove 100 0] constructor)) \<and>
   gap Azimuth (frames [16] (run [MouseDown 0 0, MouseMove 100 0] constructor)) = 0.45"
proof -
  let ?s = "wheel 120 constructor"
  let ?d = "run [MouseDown 0 0, MouseMove 100 0] constructor"
  have k: "damping (cameraControls ?s) = 0.1"
    and m: "\<not> autoRotate (cameraControls ?s)"
    and t: "targetDistance (cameraControls ?s) = 13.2"
    and g: "gap Distance ?s = 1.2"
    by (simp_all add: wheel_def constructor_def gap_def Let_def)
  from m have m': "autoRotate (cameraControls ?s) \<longrightarrow> Distance = Distance" by simp
  have k2: "damping (cameraControls ?d) = 0.1"
    and m2: "\<not> autoRotate (cameraControls ?d)"
    and g2: "gap Azimuth ?d = 0.5"
    by (simp_all add: run_def mousedown_def mousemove_def constructor_def gap_def Let_def)
  from m2 have m2': "autoRotate (cameraControls ?d) \<longrightarrow> Azimuth = Distance" by simp
  from damping_converges [OF k m', of "[16, 32]" 48 "1 / 100"]
    damping_converges [OF k2 m2', of "[16]" 32 1] k m t g m2 g2
  show ?thesis by (simp add: power2_eq_square)
qed

section \<open>Colours\<close>

text \<open>The five values the specification lists.\<close>

lemma getStarColor_values:
  "getStarColor (Some 6500) = [1, 1, 1] \<and> getStarColor (Some 4500) = [1, 0.6, 0.3] \<and>
   getStarColor (Some 2500) = [0.8, 0.2, 0.2] \<and> getPlanetColor (Some 1200) = [1, 0.4, 0.4] \<and>
   getPlanetColor (Some 250) = [0.6, 0.6, 1.0]"
  by (simp add: getStarColor_def getPlanetColor_def js_gt_def)

text \<open>
  Claim C7, as stated, at a temperature equal to a threshold. With inclusive lower bounds
  a star of exactly 6000 K is white and a planet of exactly 1000 K has the hottest colour;
  the code tests \<^verbatim>\<open>teff > 6000\<close> and \<^verbatim>\<open>eqTemp > 1000\<close> and gives each the colour of the band below.
\<close>

theorem color_inclusive_counterexample:
  "getStarColor (Some 6000) = [1, 1, 0.7] \<and> starColor_inclusive 6000 = [1, 1, 1] \<and>
   getStarColor (Some 6000) \<noteq> starColor_inclusive 6000 \<and>
   getPlanetColor (Some 1000) = [1, 0.6, 0.3] \<and> planetColor_inclusive 1000 = [1, 0.4, 0.4] \<and>
   getPlanetColor (Some 1000) \<noteq> planetColor_inclusive 1000"
  by (simp add: getStarColor_def getPlanetColor_def js_gt_def starColor_inclusive_def
      planetColor_inclusive_def)

text \<open>
  Claim C7, amended. Both functions are the step tables of the specification with strict
  thresholds: a band is \<open>lower < t \<le> upper\<close>, so its lower bound is excluded and a temperature
  equal to a threshold takes the colour of the band below. Away from the thresholds this is
  the table with inclusive lower bounds. An absent temperature takes the last colour.
\<close>

theorem color_tables:
  "(6000 < t \<longrightarrow> getStarColor (Some t) = [1, 1, 1]) \<and>
   (5000 < t \<and> t \<le> 6000 \<longrightarrow> getStarColor (Some t) = [1, 1, 0.7]) \<and>
   (4000 < t \<and> t \<le> 5000 \<longrightarrow> getStarColor (Some t) = [1, 0.6, 0.3]) \<and>
   (3000 < t \<and> t \<le> 4000 \<longrightarrow> getStarColor (Some t) = [1, 0.3, 0.3]) \<and>
   (t \<le> 3000 \<longrightarrow> getStarColor (Some t) = [0.8, 0.2, 0.2]) \<and>
   (1000 < t \<longrightarrow> getPlanetColor (Some t) = [1, 0.4, 0.4]) \<and>
   (500 < t \<and> t \<le> 1000 \<longrightarrow> getPlanetColor (Some t) = [1, 0.6, 0.3]) \<and>
   (273 < t \<and> t \<le> 500 \<longrightarrow> getPlanetColor (Some t) = [0.4, 0.6, 1]) \<and>
   (200 < t \<and> t \<le> 273 \<longrightarrow> getPlanetColor (Some t) = [0.6, 0.6, 1]) \<and>
   (t \<le> 200 \<longrightarrow> getPlanetColor (Some t) = [0.7, 0.7, 0.7]) \<and>
   (t \<notin> {6000, 5000, 4000, 3000} \<longrightarrow> getStarColor (Some t) = starColor_inclusive t) \<and>
   (t \<notin> {1000, 500, 273, 200} \<longrightarrow> getPlanetColor (Some t) = planetColor_inclusive t) \<and>
   getStarColor None = [0.8, 0.2, 0.2] \<and> getPlanetColor None = [0.7, 0.7, 0.7]"
  by (simp add: getStarColor_def getPlanetColor_def js_gt_def starColor_inclusive_def
      planetColor_inclusive_def)

text \<open>The amended C7 at the five temperatures of the specification and one in each other band.\<close>

theorem color_tables_witness:
  "getStarColor (Some 6500) = [1, 1, 1] \<and> getStarColor (Some 4500) = [1, 0.6, 0.3] \<and>
   getStarColor (Some 2500) = [0.8, 0.2, 0.2] \<and> getPlanetColor (Some 1200) = [1, 0.4, 0.4] \<and>
   getPlanetColor (Some 250) = [0.6, 0.6, 1.0] \<and>
   getStarColor (Some 5500) = [1, 1, 0.7] \<and> getStarColor (Some 3500) = [1, 0.3, 0.3] \<and>
   getPlanetColor (Some 700) = [1, 0.6, 0.3] \<and> getPlanetColor (Some 300) = [0.4, 0.6, 1] \<and>
   getPlanetColor (Some 100) = [0.7, 0.7, 0.7] \<and>
   getStarColor (Some 6500) = starColor_inclusive 6500 \<and>
   getPlanetColor (Some 1200) = planetColor_inclusive 1200"
  using color_tables [of 6500] color_tables [of 4500] color_tables [of 2500]
    color_tables [of 1200] color_tables [of 250] color_tables [of 5500] color_tables [of 3500]
    color_tables [of 700] color_tables [of 300] color_tables [of 100]
  by auto

section \<open>The projection matrix\<close>

lemma div_combine:
  fixes D :: real
  shows "a / D * x + b / D = (a * x + b) / D"
  by (simp add: add_divide_distrib)

lemma perspective_near_arith:
  fixes near far :: real
  assumes "near \<noteq> far"
  shows "(far + near) / (near - far) * - near + (2 * far * near) / (near - far) = - near"
proof -
  have d: "near - far \<noteq> 0" using assms by simp
  have "(far + near) * - near + 2 * far * near = - near * (near - far)"
    by (simp add: algebra_simps)
  then have "((far + near) * - near + 2 * far * near) / (near - far) = - near"
    using d by simp
  then show ?thesis by (simp only: div_combine)
qed

lemma perspective_far_arith:
  fixes near far :: real
  assumes "near \<noteq> far"
  shows "(far + near) / (near - far) * - far + (2 * far * near) / (near - far) = far"
proof -
  have d: "near - far \<noteq> 0" using assms by simp
  have "(far + near) * - far + 2 * far * near = far * (near - far)"
    by (simp add: algebra_simps)
  then have "((far + near) * - far + 2 * far * near) / (near - far) = far"
    using d by simp
  then show ?thesis by (simp only: div_combine)
qed

text \<open>
  Claim C4. For a 16-entry buffer, \<open>0 < near < far\<close> and any field of view and aspect ratio,
  the matrix of \<open>perspective\<close> sends the point of the view axis at depth \<open>near\<close>, that is
  \<open>(0, 0, -near, 1)\<close>, to depth \<open>-1\<close> after the perspective division, and the point at depth
  \<open>far\<close> to \<open>+1\<close>.
\<close>

theorem perspective_depth:
  assumes "length out = 16" and "0 < near" and "near < far"
  shows "ndc_depth (mat4_mul_vec4 (perspective out fovy aspect near far) [0, 0, - near, 1]) = - 1
       \<and> ndc_depth (mat4_mul_vec4 (perspective out fovy aspect near far) [0, 0, - far, 1]) = 1"
proof -
  let ?p = "perspective out fovy aspect near far"
  have e: "?p ! 2 = 0" "?p ! 6 = 0" "?p ! 10 = (far + near) / (near - far)"
    "?p ! 14 = (2 * far * near) / (near - far)"
    "?p ! 3 = 0" "?p ! 7 = 0" "?p ! 11 = - 1" "?p ! 15 = 0"
    using assms(1) by (simp_all add: perspective_def Let_def)
  from assms have ne: "near \<noteq> far" by simp
  note n = perspective_near_arith [OF ne] and f = perspective_far_arith [OF ne]
  have "ndc_depth (mat4_mul_vec4 ?p [0, 0, - near, 1]) = - near / near"
    using n by (simp add: ndc_depth_def mat4_mul_vec4_def e)
  moreover have "ndc_depth (mat4_mul_vec4 ?p [0, 0, - far, 1]) = far / far"
    using f by (simp add: ndc_depth_def mat4_mul_vec4_def e)
  ultimately show ?thesis using assms by simp
qed

text \<open>C4 with the engine's own camera: 80 degrees, near 0.1, far 500, on a 16:9 canvas.\<close>

theorem perspective_depth_witness:
  "length mat4_create = 16 \<and> (0::real) < 0.1 \<and> (0.1::real) < 500 \<and>
   ndc_depth (mat4_mul_vec4 (perspective mat4_create (80 * pi / 180) (16 / 9) 0.1 500)
     [0, 0, - 0.1, 1]) = - 1 \<and>
   ndc_depth (mat4_mul_vec4 (perspective mat4_create (80 * pi / 180) (16 / 9) 0.1 500)
     [0, 0, - 500, 1]) = 1"
proof -
  have l: "length mat4_create = 16" by (simp add: mat4_create_def)
  have a: "(0::real) < 0.1" and b: "(0.1::real) < 500" by simp_all
  from perspective_depth [OF l a b, of "80 * pi / 180" "16 / 9"] l show ?thesis by simp
qed

section \<open>The sphere mesh\<close>

lemma sphere_vertex_lengths:
  "length (positions (sphere_vertex radius segments rings i z zr j m)) = length (positions m) + 3"
  "length (normals (sphere_vertex radius segments rings i z zr j m)) = length (normals m) + 3"
  "length (uvs (sphere_vertex radius segments rings i z zr j m)) = length (uvs m) + 2"
  "indices (sphere_vertex radius segments rings i z zr j m) = indices m"
  by (simp_all add: sphere_vertex_def Let_def)

lemma fold_sphere_vertex:
  "length (positions (fold (sphere_vertex radius segments rings i z zr) js m)) =
     length (positions m) + 3 * length js \<and>
   length (normals (fold (sphere_vertex radius segments rings i z zr) js m)) =
     length (normals m) + 3 * length js \<and>
   length (uvs (fold (sphere_vertex radius segments rings i z zr) js m)) =
     length (uvs m) + 2 * length js \<and>
   indices (fold (sphere_vertex radius segments rings i z zr) js m) = indices m"
  by (induction js arbitrary: m) (simp_all add: sphere_vertex_lengths)

lemma sphere_ring_lengths:
  "length (positions (sphere_ring radius segments rings i m)) =
     length (positions m) + 3 * (segments + 1) \<and>
   length (normals (sphere_ring radius segments rings i m)) =
     length (normals m) + 3 * (segments + 1) \<and>
   length (uvs (sphere_ring radius segments rings i m)) = length (uvs m) + 2 * (segments + 1) \<and>
   indices (sphere_ring radius segments rings i m) = indices m"
  unfolding sphere_ring_def Let_def
  using fold_sphere_vertex [where js = "[0..<Suc segments]"] by simp

lemma fold_sphere_ring:
  "length (positions (fold (sphere_ring radius segments rings) rs m)) =
     length (positions m) + 3 * (segments + 1) * length rs \<and>
   length (normals (fold (sphere_ring radius segments rings) rs m)) =
     length (normals m) + 3 * (segments + 1) * length rs \<and>
   length (uvs (fold (sphere_ring radius segments rings) rs m)) =
     length (uvs m) + 2 * (segments + 1) * length rs \<and>
   indices (fold (sphere_ring radius segments rings) rs m) = indices m"
  by (induction rs arbitrary: m) (simp_all add: sphere_ring_lengths algebra_simps)

lemma sphere_quad_fields:
  "positions (sphere_quad segments i j m) = positions m"
  "normals (sphere_quad segments i j m) = normals m"
  "uvs (sphere_quad segments i j m) = uvs m"
  "indices (sphere_quad segments i j m) = indices m @ quad_indices segments i j"
  by (simp_all add: sphere_quad_def quad_indices_def Let_def)

lemma length_quad_indices: "length (quad_indices segments i j) = 6"
  by (simp add: quad_indices_def Let_def)

lemma fold_sphere_quad:
  "positions (fold (sphere_quad segments i) js m) = positions m \<and>
   normals (fold (sphere_quad segments i) js m) = normals m \<and>
   uvs (fold (sphere_quad segments i) js m) = uvs m \<and>
   indices (fold (sphere_quad segments i) js m) =
     indices m @ concat (map (quad_indices segments i) js)"
  by (induction js arbitrary: m) (simp_all add: sphere_quad_fields)

lemma fold_sphere_quads:
  "positions (fold (\<lambda>i. fold (sphere_quad segments i) [0..<segments]) rs m) = positions m \<and>
   normals (fold (\<lambda>i. fold (sphere_quad segments i) [0..<segments]) rs m) = normals m \<and>
   uvs (fold (\<lambda>i. fold (sphere_quad segments i) [0..<segments]) rs m) = uvs m \<and>
   indices (fold (\<lambda>i. fold (sphere_quad segments i) [0..<segments]) rs m) =
     indices m @ concat (map (\<lambda>i. concat (map (quad_indices segments i) [0..<segments])) rs)"
  by (induction rs arbitrary: m) (simp_all add: fold_sphere_quad)

lemma createSphere_fold:
  "createSphere radius segments rings =
     fold (\<lambda>i. fold (sphere_quad segments i) [0..<segments]) [0..<rings]
       (fold (sphere_ring radius segments rings) [0..<Suc rings]
          \<lparr>positions = [], normals = [], uvs = [], indices = []\<rparr>)"
  unfolding createSphere_def Let_def ..

lemma createSphere_indices:
  "indices (createSphere radius segments rings) =
     concat (map (\<lambda>i. concat (map (quad_indices segments i) [0..<segments])) [0..<rings])"
  unfolding createSphere_fold
  by (simp only: fold_sphere_quads fold_sphere_ring mesh.simps append_Nil)

lemma createSphere_buffers:
  "length (positions (createSphere radius segments rings)) = 3 * ((rings + 1) * (segments + 1))"
  "length (normals (createSphere radius segments rings)) = 3 * ((rings + 1) * (segments + 1))"
  "length (uvs (createSphere radius segments rings)) = 2 * ((rings + 1) * (segments + 1))"
  unfolding createSphere_fold
  by (simp_all only: fold_sphere_quads fold_sphere_ring mesh.simps list.size length_upt)
     (simp_all add: algebra_simps)

lemma length_concat_const:
  "(\<And>x. x \<in> set xs \<Longrightarrow> length (f x) = c) \<Longrightarrow> length (concat (map f xs)) = c * length xs"
  by (induction xs) simp_all

lemma createSphere_index_count:
  "length (indices (createSphere radius segments rings)) = 6 * rings * segments"
proof -
  have row: "length (concat (map (quad_indices segments i) [0..<segments])) = 6 * segments" for i
    using length_concat_const [of "[0..<segments]" "quad_indices segments i" 6]
    by (simp add: length_quad_indices)
  have "length (indices (createSphere radius segments rings)) = 6 * segments * rings"
    unfolding createSphere_indices
    using length_concat_const
      [of "[0..<rings]" "\<lambda>i. concat (map (quad_indices segments i) [0..<segments])" "6 * segments"]
    by (simp add: row)
  then show ?thesis by (simp add: mult.commute mult.left_commute)
qed

lemma quad_index_bound:
  fixes i j rings segments :: nat
  assumes "i < rings" and "j < segments"
  shows "i * (segments + 1) + j + segments + 1 + 1 < (rings + 1) * (segments + 1)"
proof -
  from assms(1) have "Suc i \<le> rings" by simp
  then have "Suc i * (segments + 1) \<le> rings * (segments + 1)" by (rule mult_le_mono1)
  with assms(2) show ?thesis by simp
qed

lemma quad_indices_bound:
  assumes "i < rings" and "j < segments" and "k \<in> set (quad_indices segments i j)"
  shows "k < (rings + 1) * (segments + 1)"
proof -
  define f where "f = i * (segments + 1) + j"
  define B where "B = (rings + 1) * (segments + 1)"
  from quad_index_bound [OF assms(1,2)] have b: "f + segments + 1 + 1 < B"
    by (simp only: f_def B_def)
  from assms(3) have "k \<in> {f, f + segments + 1, f + 1, f + segments + 1 + 1}"
    by (simp add: quad_indices_def Let_def f_def) blast
  with b have "k < B" by auto
  then show ?thesis by (simp only: B_def)
qed

lemma createSphere_index_bound:
  assumes "k \<in> set (indices (createSphere radius segments rings))"
  shows "k < (rings + 1) * (segments + 1)"
proof -
  from assms obtain i j where "i < rings" "j < segments" "k \<in> set (quad_indices segments i j)"
    unfolding createSphere_indices by auto
  then show ?thesis by (rule quad_indices_bound)
qed

text \<open>
  Claim C6. For positive segment and ring counts \<open>createSphere\<close> emits
  \<open>(rings + 1) * (segments + 1)\<close> vertices (three position and normal floats and two UV floats
  each) and \<open>6 * rings * segments\<close> indices, each of them less than the vertex count. With 4
  segments and 2 rings: 15 vertices, 48 indices, 16 triangles.
\<close>

theorem createSphere_counts:
  assumes "0 < segments" and "0 < rings"
  shows "length (positions (createSphere radius segments rings)) = 3 * ((rings + 1) * (segments + 1))
       \<and> length (normals (createSphere radius segments rings)) = 3 * ((rings + 1) * (segments + 1))
       \<and> length (uvs (createSphere radius segments rings)) = 2 * ((rings + 1) * (segments + 1))
       \<and> vertex_count (createSphere radius segments rings) = (rings + 1) * (segments + 1)
       \<and> length (indices (createSphere radius segments rings)) = 6 * rings * segments
       \<and> (\<forall>k\<in>set (indices (createSphere radius segments rings)).
            k < vertex_count (createSphere radius segments rings))"
proof -
  have vc: "vertex_count (createSphere radius segments rings) = (rings + 1) * (segments + 1)"
    unfolding vertex_count_def createSphere_buffers(1) by simp
  have b: "\<forall>k\<in>set (indices (createSphere radius segments rings)).
            k < vertex_count (createSphere radius segments rings)"
    unfolding vc by (rule ballI) (rule createSphere_index_bound)
  from createSphere_buffers [of radius segments rings] vc
    createSphere_index_count [of radius segments rings] b
  show ?thesis by (intro conjI)
qed

text \<open>C6 at \<open>segments = 4\<close>, \<open>rings = 2\<close>.\<close>

theorem createSphere_counts_witness:
  "(0::nat) < 4 \<and> (0::nat) < 2 \<and>
   vertex_count (createSphere 1 4 2) = 15 \<and>
   length (positions (createSphere 1 4 2)) = 45 \<and>
   length (indices (createSphere 1 4 2)) = 48 \<and>
   length (indices (createSphere 1 4 2)) div 3 = 16 \<and>
   list_all (\<lambda>k. k < 15) (indices (createSphere 1 4 2))"
proof -
  have a: "(0::nat) < 4" and b: "(0::nat) < 2" by simp_all
  note c = createSphere_counts [OF a b, of 1]
  from c have p: "length (positions (createSphere 1 4 2)) = 45" by (elim conjE) simp
  from c have v: "vertex_count (createSphere 1 4 2) = 15" by (elim conjE) simp
  from c have l: "length (indices (createSphere 1 4 2)) = 48" by (elim conjE) simp
  from c have "\<forall>k\<in>set (indices (createSphere 1 4 2)). k < vertex_count (createSphere 1 4 2)"
    by (elim conjE)
  then have r: "list_all (\<lambda>k. k < 15) (indices (createSphere 1 4 2))"
    unfolding v list_all_iff .
  from p v l r show ?thesis by simp
qed

text \<open>The 48 indices of that mesh, computed.\<close>

lemma createSphere_indices_4_2:
  "indices (createSphere 1 4 2) =
     [0, 5, 1, 5, 6, 1, 1, 6, 2, 6, 7, 2, 2, 7, 3, 7, 8, 3, 3, 8, 4, 8, 9, 4,
      5, 10, 6, 10, 11, 6, 6, 11, 7, 11, 12, 7, 7, 12, 8, 12, 13, 8, 8, 13, 9, 13, 14, 9]"
proof -
  have r2: "[0..<2] = [0, 1]" and r4: "[0..<4] = [0, 1, 2, 3]" by (simp_all add: upt_rec)
  show ?thesis
    unfolding createSphere_indices r2 r4 by (simp add: quad_indices_def Let_def)
qed

section \<open>The planet's orbit\<close>

lemma js_or_nonzero: "d \<noteq> 0 \<Longrightarrow> js_or x d \<noteq> 0"
  by (simp add: js_or_def split: option.splits)

text \<open>
  Claim C3. With \<open>orbitSpeed = 10\<close> the orbital angle is \<open>time * 10 / period_days\<close>, where an
  absent or zero period counts as 1, so the divisor is never zero; and at \<open>time = 0\<close> the
  planet is at \<open>(orbitRadius, 0, 0)\<close> whatever the period.
\<close>

theorem planet_orbit:
  assumes "orbitSpeed s = 10"
  shows "js_or (period_days p) 1 \<noteq> 0
       \<and> drawPlanet_orbitAngle s p = time s * 10 / js_or (period_days p) 1
       \<and> (period_days p = None \<or> period_days p = Some 0 \<longrightarrow>
            drawPlanet_orbitAngle s p = time s * 10 / 1)
       \<and> (\<forall>d. period_days p = Some d \<and> d \<noteq> 0 \<longrightarrow> drawPlanet_orbitAngle s p = time s * 10 / d)
       \<and> (time s = 0 \<longrightarrow> drawPlanet_position s p = [drawPlanet_orbitRadius p, 0, 0])"
  using assms
  by (auto simp add: drawPlanet_orbitAngle_def drawPlanet_position_def js_or_def Let_def
      split: option.splits)

text \<open>C3 at the constructor's state (\<open>time = 0\<close>) for the loader's fallback planet, and for
  that planet with its period zeroed or removed one second later.\<close>

theorem planet_orbit_witness:
  "orbitSpeed constructor = 10 \<and> time constructor = 0 \<and>
   period_days toi700d = Some 37.426 \<and> (37.426 :: real) \<noteq> 0 \<and>
   drawPlanet_orbitAngle constructor toi700d = 0 \<and>
   drawPlanet_position constructor toi700d = [3, 0, 0] \<and>
   drawPlanet_orbitAngle (constructor\<lparr>time := 1\<rparr>) toi700d = 10 / 37.426 \<and>
   drawPlanet_orbitAngle (constructor\<lparr>time := 1\<rparr>) (toi700d\<lparr>period_days := Some 0\<rparr>) = 10 \<and>
   drawPlanet_orbitAngle (constructor\<lparr>time := 1\<rparr>) (toi700d\<lparr>period_days := None\<rparr>) = 10"
proof -
  have a: "orbitSpeed constructor = 10" and t: "time constructor = 0"
    by (simp_all add: constructor_def)
  have b: "orbitSpeed (constructor\<lparr>time := 1\<rparr>) = 10" by (simp add: constructor_def)
  have r: "drawPlanet_orbitRadius toi700d = 3"
    by (simp add: drawPlanet_orbitRadius_def toi700d_def js_or_def)
  have p: "period_days toi700d = Some 37.426" by (simp add: toi700d_def)
  have t1: "time (constructor\<lparr>time := 1\<rparr>) = 1" by simp
  from planet_orbit [OF b, of toi700d]
  have "\<forall>d. period_days toi700d = Some d \<and> d \<noteq> 0 \<longrightarrow>
          drawPlanet_orbitAngle (constructor\<lparr>time := 1\<rparr>) toi700d =
            time (constructor\<lparr>time := 1\<rparr>) * 10 / d"
    by (elim conjE)
  then have "period_days toi700d = Some 37.426 \<and> (37.426 :: real) \<noteq> 0 \<longrightarrow>
          drawPlanet_orbitAngle (constructor\<lparr>time := 1\<rparr>) toi700d =
            time (constructor\<lparr>time := 1\<rparr>) * 10 / 37.426" ..
  with p t1 have q: "drawPlanet_orbitAngle (constructor\<lparr>time := 1\<rparr>) toi700d = 10 / 37.426"
    by simp
  from planet_orbit [OF a, of toi700d] t r
  have o: "drawPlanet_orbitAngle constructor toi700d = 0"
    and z: "drawPlanet_position constructor toi700d = [3, 0, 0]"
    by simp_all
  from planet_orbit [OF b, of "toi700d\<lparr>period_days := Some 0\<rparr>"] t1
  have z0: "drawPlanet_orbitAngle (constructor\<lparr>time := 1\<rparr>) (toi700d\<lparr>period_days := Some 0\<rparr>) = 10"
    by simp
  from planet_orbit [OF b, of "toi700d\<lparr>period_days := None\<rparr>"] t1
  have n0: "drawPlanet_orbitAngle (constructor\<lparr>time := 1\<rparr>) (toi700d\<lparr>period_days := None\<rparr>) = 10"
    by simp
  from a t p q o z z0 n0 show ?thesis by simp
qed

section \<open>The view matrix\<close>

lemma sumsq_pos:
  fixes a b c :: real
  assumes "(a, b, c) \<noteq> (0, 0, 0)"
  shows "0 < a * a + b * b + c * c"
proof -
  have "0 \<le> a * a" "0 \<le> b * b" "0 \<le> c * c" by simp_all
  moreover from assms have "a * a \<noteq> 0 \<or> b * b \<noteq> 0 \<or> c * c \<noteq> 0" by auto
  ultimately show ?thesis by linarith
qed

lemma scaled_unit:
  fixes a b c :: real
  assumes "0 < a * a + b * b + c * c"
  shows "(a * (1 / sqrt (a * a + b * b + c * c))) * (a * (1 / sqrt (a * a + b * b + c * c))) +
         (b * (1 / sqrt (a * a + b * b + c * c))) * (b * (1 / sqrt (a * a + b * b + c * c))) +
         (c * (1 / sqrt (a * a + b * b + c * c))) * (c * (1 / sqrt (a * a + b * b + c * c))) = 1"
proof -
  define s where "s = a * a + b * b + c * c"
  define l where "l = 1 / sqrt s"
  from assms have sp: "0 < s" by (simp add: s_def)
  then have "sqrt s * sqrt s = s" by simp
  then have ll: "l * l = 1 / s" by (simp add: l_def)
  have "(a * l) * (a * l) + (b * l) * (b * l) + (c * l) * (c * l) = s * (l * l)"
    by (simp add: s_def algebra_simps)
  also have "\<dots> = 1" using sp by (simp add: ll)
  finally show ?thesis by (simp only: s_def l_def)
qed

lemma cross_perp:
  fixes u0 u1 u2 v0 v1 v2 :: real
  shows "(u1 * v2 - u2 * v1) * u0 + (u2 * v0 - u0 * v2) * u1 + (u0 * v1 - u1 * v0) * u2 = 0"
    and "(u1 * v2 - u2 * v1) * v0 + (u2 * v0 - u0 * v2) * v1 + (u0 * v1 - u1 * v0) * v2 = 0"
  by (simp_all add: algebra_simps)

lemma lagrange3:
  fixes u0 u1 u2 v0 v1 v2 :: real
  shows "(u1 * v2 - u2 * v1) * (u1 * v2 - u2 * v1) + (u2 * v0 - u0 * v2) * (u2 * v0 - u0 * v2) +
         (u0 * v1 - u1 * v0) * (u0 * v1 - u1 * v0) =
         (u0 * u0 + u1 * u1 + u2 * u2) * (v0 * v0 + v1 * v1 + v2 * v2) -
         (u0 * v0 + u1 * v1 + u2 * v2) * (u0 * v0 + u1 * v1 + u2 * v2)"
  by (simp add: algebra_simps)

lemma lookAt_z_unit:
  assumes "vec3 eye \<noteq> vec3 center"
  shows "dot3 (lookAt_z eye center) (lookAt_z eye center) = 1"
proof -
  from assms have "(eye ! 0 - center ! 0, eye ! 1 - center ! 1, eye ! 2 - center ! 2) \<noteq> (0, 0, 0)"
    by (auto simp add: vec3_def)
  from scaled_unit [OF sumsq_pos [OF this]] show ?thesis
    by (simp add: lookAt_z_def dot3_def Let_def)
qed


lemma dot3_commute: "dot3 u v = dot3 v u"
  by (cases u, cases v) (simp add: dot3_def algebra_simps)

lemma dot3_cross3:
  "dot3 (cross3 u v) u = 0" "dot3 (cross3 u v) v = 0"
  by (cases u, cases v, simp add: dot3_def cross3_def cross_perp)+

lemma dot3_cross3_self:
  "dot3 (cross3 u v) (cross3 u v) = dot3 u u * dot3 v v - dot3 u v * dot3 u v"
  by (cases u, cases v) (simp add: dot3_def cross3_def lagrange3)

lemma dot3_scale3: "dot3 (scale3 k u) v = k * dot3 u v"
  by (cases u, cases v) (simp add: dot3_def scale3_def algebra_simps)

lemma cross3_scale3: "cross3 u (scale3 k v) = scale3 k (cross3 u v)"
  by (cases u, cases v) (simp add: cross3_def scale3_def algebra_simps)

lemma scale3_zero_iff: "scale3 k u = (0, 0, 0) \<longleftrightarrow> k = 0 \<or> u = (0, 0, 0)"
  by (cases u) (auto simp add: scale3_def)

lemma dot3_self_pos: "u \<noteq> (0, 0, 0) \<Longrightarrow> 0 < dot3 u u"
  by (cases u) (simp add: dot3_def sumsq_pos)

lemma scale3_unit:
  assumes "0 < dot3 u u"
  shows "dot3 (scale3 (1 / sqrt (dot3 u u)) u) (scale3 (1 / sqrt (dot3 u u)) u) = 1"
proof (cases u)
  case (fields a b c)
  with assms have "0 < a * a + b * b + c * c" by (simp add: dot3_def)
  from scaled_unit [OF this] show ?thesis by (simp add: fields dot3_def scale3_def)
qed

lemma lookAt_z_scale3:
  "lookAt_z eye center =
     scale3 (1 / sqrt (dot3 (sub3 (vec3 eye) (vec3 center)) (sub3 (vec3 eye) (vec3 center))))
       (sub3 (vec3 eye) (vec3 center))"
  by (simp add: lookAt_z_def scale3_def sub3_def vec3_def dot3_def Let_def)

lemma lookAt_x_scale3:
  "lookAt_x eye center up =
     (let c = cross3 (vec3 up) (lookAt_z eye center) in
      if sqrt (dot3 c c) = 0 then (0, 0, 0) else scale3 (1 / sqrt (dot3 c c)) c)"
  by (cases "lookAt_z eye center")
     (simp add: lookAt_x_def scale3_def cross3_def vec3_def dot3_def Let_def)

lemma lookAt_y_cross3:
  "lookAt_y eye center up = cross3 (lookAt_z eye center) (lookAt_x eye center up)"
  by (cases "lookAt_z eye center", cases "lookAt_x eye center up")
     (simp add: lookAt_y_def cross3_def)

lemma lookAt_rows:
  assumes "length out = 16"
  shows "mat4_row3 (lookAt out eye center up) 0 = lookAt_x eye center up"
    and "mat4_row3 (lookAt out eye center up) 1 = lookAt_y eye center up"
    and "mat4_row3 (lookAt out eye center up) 2 = lookAt_z eye center"
  using assms
  by (cases "lookAt_z eye center", cases "lookAt_x eye center up", cases "lookAt_y eye center up",
      simp add: lookAt_def mat4_row3_def Let_def)+


lemma sub3_zero_iff: "sub3 u v = (0, 0, 0) \<longleftrightarrow> u = v"
  by (cases u, cases v) (simp add: sub3_def)

lemma lookAt_basis:
  assumes "vec3 eye \<noteq> vec3 center"
    and "cross3 (vec3 up) (sub3 (vec3 eye) (vec3 center)) \<noteq> (0, 0, 0)"
  shows "dot3 (lookAt_x eye center up) (lookAt_x eye center up) = 1"
    and "dot3 (lookAt_y eye center up) (lookAt_y eye center up) = 1"
    and "dot3 (lookAt_z eye center) (lookAt_z eye center) = 1"
    and "dot3 (lookAt_x eye center up) (lookAt_y eye center up) = 0"
    and "dot3 (lookAt_x eye center up) (lookAt_z eye center) = 0"
    and "dot3 (lookAt_y eye center up) (lookAt_z eye center) = 0"
proof -
  define d where "d = sub3 (vec3 eye) (vec3 center)"
  define k where "k = 1 / sqrt (dot3 d d)"
  define z where "z = lookAt_z eye center"
  define c where "c = cross3 (vec3 up) z"
  define x where "x = lookAt_x eye center up"
  define y where "y = lookAt_y eye center up"
  from assms(1) have "d \<noteq> (0, 0, 0)" by (simp add: d_def sub3_zero_iff)
  then have dd: "0 < dot3 d d" by (rule dot3_self_pos)
  then have k: "k \<noteq> 0" by (simp add: k_def)
  have z: "z = scale3 k d" by (simp add: z_def k_def d_def lookAt_z_scale3)
  have zz: "dot3 z z = 1" unfolding z k_def using dd by (rule scale3_unit)
  have "c = scale3 k (cross3 (vec3 up) d)" by (simp add: c_def z cross3_scale3)
  with k assms(2) have "c \<noteq> (0, 0, 0)" by (simp add: scale3_zero_iff d_def)
  then have cc: "0 < dot3 c c" by (rule dot3_self_pos)
  then have "sqrt (dot3 c c) \<noteq> 0" by simp
  then have x: "x = scale3 (1 / sqrt (dot3 c c)) c"
    by (simp add: x_def lookAt_x_scale3 Let_def c_def z_def)
  have xx: "dot3 x x = 1" unfolding x using cc by (rule scale3_unit)
  have xz: "dot3 x z = 0" by (simp add: x dot3_scale3 c_def dot3_cross3)
  have y: "y = cross3 z x" by (simp add: y_def z_def x_def lookAt_y_cross3)
  have zx: "dot3 z x = 0" using xz by (simp add: dot3_commute)
  have yy: "dot3 y y = 1" by (simp add: y dot3_cross3_self zz xx zx)
  have yz: "dot3 y z = 0" by (simp add: y dot3_cross3)
  have yx: "dot3 y x = 0" by (simp add: y dot3_cross3)
  then have xy: "dot3 x y = 0" by (simp add: dot3_commute)
  from xx show "dot3 (lookAt_x eye center up) (lookAt_x eye center up) = 1" by (simp only: x_def)
  from yy show "dot3 (lookAt_y eye center up) (lookAt_y eye center up) = 1" by (simp only: y_def)
  from zz show "dot3 (lookAt_z eye center) (lookAt_z eye center) = 1" by (simp only: z_def)
  from xy show "dot3 (lookAt_x eye center up) (lookAt_y eye center up) = 0"
    by (simp only: x_def y_def)
  from xz show "dot3 (lookAt_x eye center up) (lookAt_z eye center) = 0"
    by (simp only: x_def z_def)
  from yz show "dot3 (lookAt_y eye center up) (lookAt_z eye center) = 0"
    by (simp only: y_def z_def)
qed

lemma frame_complete:
  fixes a0 a1 a2 b0 b1 b2 :: real
  defines "y0 \<equiv> a1 * b2 - a2 * b1" and "y1 \<equiv> a2 * b0 - a0 * b2" and "y2 \<equiv> a0 * b1 - a1 * b0"
  assumes "a0 * a0 + a1 * a1 + a2 * a2 = 1" and "b0 * b0 + b1 * b1 + b2 * b2 = 1"
    and "a0 * b0 + a1 * b1 + a2 * b2 = 0"
  shows "b0 * b0 + y0 * y0 + a0 * a0 = 1"
    and "b1 * b1 + y1 * y1 + a1 * a1 = 1"
    and "b2 * b2 + y2 * y2 + a2 * a2 = 1"
    and "b0 * b1 + y0 * y1 + a0 * a1 = 0"
    and "b0 * b2 + y0 * y2 + a0 * a2 = 0"
    and "b1 * b2 + y1 * y2 + a1 * a2 = 0"
proof -
  define A where "A = a0 * a0 + a1 * a1 + a2 * a2"
  define B where "B = b0 * b0 + b1 * b1 + b2 * b2"
  define C where "C = a0 * b0 + a1 * b1 + a2 * b2"
  have v: "A = 1" "B = 1" "C = 0" using assms(4-6) by (simp_all add: A_def B_def C_def)
  have "b0 * b0 + y0 * y0 + a0 * a0 - 1 =
        (A * B - C * C - 1) - (B - 1) * (a0 * a0) - (A - 1) * (b0 * b0) + C * (2 * a0 * b0)"
    unfolding A_def B_def C_def y0_def by (simp add: algebra_simps)
  then show "b0 * b0 + y0 * y0 + a0 * a0 = 1" by (simp add: v)
  have "b1 * b1 + y1 * y1 + a1 * a1 - 1 =
        (A * B - C * C - 1) - (B - 1) * (a1 * a1) - (A - 1) * (b1 * b1) + C * (2 * a1 * b1)"
    unfolding A_def B_def C_def y1_def by (simp add: algebra_simps)
  then show "b1 * b1 + y1 * y1 + a1 * a1 = 1" by (simp add: v)
  have "b2 * b2 + y2 * y2 + a2 * a2 - 1 =
        (A * B - C * C - 1) - (B - 1) * (a2 * a2) - (A - 1) * (b2 * b2) + C * (2 * a2 * b2)"
    unfolding A_def B_def C_def y2_def by (simp add: algebra_simps)
  then show "b2 * b2 + y2 * y2 + a2 * a2 = 1" by (simp add: v)
  have "b0 * b1 + y0 * y1 + a0 * a1 =
        - (B - 1) * (a0 * a1) - (A - 1) * (b0 * b1) + C * (a0 * b1 + b0 * a1)"
    unfolding A_def B_def C_def y0_def y1_def by (simp add: algebra_simps)
  then show "b0 * b1 + y0 * y1 + a0 * a1 = 0" by (simp add: v)
  have "b0 * b2 + y0 * y2 + a0 * a2 =
        - (B - 1) * (a0 * a2) - (A - 1) * (b0 * b2) + C * (a0 * b2 + b0 * a2)"
    unfolding A_def B_def C_def y0_def y2_def by (simp add: algebra_simps)
  then show "b0 * b2 + y0 * y2 + a0 * a2 = 0" by (simp add: v)
  have "b1 * b2 + y1 * y2 + a1 * a2 =
        - (B - 1) * (a1 * a2) - (A - 1) * (b1 * b2) + C * (a1 * b2 + b1 * a2)"
    unfolding A_def B_def C_def y1_def y2_def by (simp add: algebra_simps)
  then show "b1 * b2 + y1 * y2 + a1 * a2 = 0" by (simp add: v)
qed

lemma mat4_col3_simps:
  "mat4_col3 m 0 = (m ! 0, m ! 1, m ! 2)"
  "mat4_col3 m 1 = (m ! 4, m ! 5, m ! 6)"
  "mat4_col3 m 2 = (m ! 8, m ! 9, m ! 10)"
  by (simp_all add: mat4_col3_def numeral_2_eq_2)

lemma lookAt_cols:
  assumes "length out = 16"
    and "lookAt_x eye center up = (x0, x1, x2)"
    and "lookAt_y eye center up = (y0, y1, y2)"
    and "lookAt_z eye center = (z0, z1, z2)"
  shows "mat4_col3 (lookAt out eye center up) 0 = (x0, y0, z0)"
    and "mat4_col3 (lookAt out eye center up) 1 = (x1, y1, z1)"
    and "mat4_col3 (lookAt out eye center up) 2 = (x2, y2, z2)"
  unfolding mat4_col3_simps using assms by (simp_all add: lookAt_def Let_def)

lemma lookAt_cols_orthonormal:
  assumes "length out = 16" and "vec3 eye \<noteq> vec3 center"
    and "cross3 (vec3 up) (sub3 (vec3 eye) (vec3 center)) \<noteq> (0, 0, 0)"
  shows "orthonormal3 (mat4_col3 (lookAt out eye center up) 0)
           (mat4_col3 (lookAt out eye center up) 1) (mat4_col3 (lookAt out eye center up) 2)"
proof -
  obtain x0 x1 x2 where x: "lookAt_x eye center up = (x0, x1, x2)"
    by (cases "lookAt_x eye center up")
  obtain z0 z1 z2 where z: "lookAt_z eye center = (z0, z1, z2)"
    by (cases "lookAt_z eye center")
  have y: "lookAt_y eye center up = (z1 * x2 - z2 * x1, z2 * x0 - z0 * x2, z0 * x1 - z1 * x0)"
    by (simp add: lookAt_y_cross3 x z cross3_def)
  note b = lookAt_basis [OF assms(2,3)]
  from b(3) have zz: "z0 * z0 + z1 * z1 + z2 * z2 = 1" by (simp add: z dot3_def)
  from b(1) have xx: "x0 * x0 + x1 * x1 + x2 * x2 = 1" by (simp add: x dot3_def)
  from b(5) have zx: "z0 * x0 + z1 * x1 + z2 * x2 = 0" by (simp add: x z dot3_def mult.commute)
  note c = frame_complete [OF zz xx zx]
  show ?thesis
    unfolding lookAt_cols [OF assms(1) x y z] orthonormal3_def dot3_def
    using c by simp
qed

text \<open>
  Claim C5. For a 16-entry buffer, \<open>eye\<close> distinct from \<open>center\<close> and \<open>up\<close> not parallel to
  the direction between them (their cross product is not zero), the three basis vectors
  that \<open>lookAt\<close> stores as the rows of the matrix (\<^verbatim>\<open>out[0], out[4], out[8]\<close> and so on) each
  have length one and are perpendicular to one another; so are the three columns
  (\<^verbatim>\<open>out[0], out[1], out[2]\<close> and so on). Over the reals this holds exactly.
\<close>

theorem lookAt_orthonormal:
  assumes "length out = 16" and "vec3 eye \<noteq> vec3 center"
    and "cross3 (vec3 up) (sub3 (vec3 eye) (vec3 center)) \<noteq> (0, 0, 0)"
  shows "orthonormal3 (mat4_row3 (lookAt out eye center up) 0)
           (mat4_row3 (lookAt out eye center up) 1) (mat4_row3 (lookAt out eye center up) 2)
       \<and> orthonormal3 (mat4_col3 (lookAt out eye center up) 0)
           (mat4_col3 (lookAt out eye center up) 1) (mat4_col3 (lookAt out eye center up) 2)"
proof
  show "orthonormal3 (mat4_row3 (lookAt out eye center up) 0)
           (mat4_row3 (lookAt out eye center up) 1) (mat4_row3 (lookAt out eye center up) 2)"
    unfolding lookAt_rows [OF assms(1)] orthonormal3_def
    using lookAt_basis [OF assms(2,3)] by (intro conjI)
  show "orthonormal3 (mat4_col3 (lookAt out eye center up) 0)
           (mat4_col3 (lookAt out eye center up) 1) (mat4_col3 (lookAt out eye center up) 2)"
    using assms by (rule lookAt_cols_orthonormal)
qed

text \<open>C5 for a camera on the z axis looking at the origin: the basis is the standard one.\<close>

theorem lookAt_orthonormal_witness:
  "length mat4_create = 16 \<and> vec3 [0, 0, 5] \<noteq> vec3 [0, 0, 0] \<and>
   cross3 (vec3 [0, 1, 0]) (sub3 (vec3 [0, 0, 5]) (vec3 [0, 0, 0])) \<noteq> (0, 0, 0) \<and>
   mat4_row3 (lookAt mat4_create [0, 0, 5] [0, 0, 0] [0, 1, 0]) 0 = (1, 0, 0) \<and>
   mat4_row3 (lookAt mat4_create [0, 0, 5] [0, 0, 0] [0, 1, 0]) 1 = (0, 1, 0) \<and>
   mat4_row3 (lookAt mat4_create [0, 0, 5] [0, 0, 0] [0, 1, 0]) 2 = (0, 0, 1) \<and>
   orthonormal3 (mat4_row3 (lookAt mat4_create [0, 0, 5] [0, 0, 0] [0, 1, 0]) 0)
     (mat4_row3 (lookAt mat4_create [0, 0, 5] [0, 0, 0] [0, 1, 0]) 1)
     (mat4_row3 (lookAt mat4_create [0, 0, 5] [0, 0, 0] [0, 1, 0]) 2) \<and>
   orthonormal3 (mat4_col3 (lookAt mat4_create [0, 0, 5] [0, 0, 0] [0, 1, 0]) 0)
     (mat4_col3 (lookAt mat4_create [0, 0, 5] [0, 0, 0] [0, 1, 0]) 1)
     (mat4_col3 (lookAt mat4_create [0, 0, 5] [0, 0, 0] [0, 1, 0]) 2)"
proof -
  have l: "length mat4_create = 16" by (simp add: mat4_create_def)
  have e: "vec3 [0, 0, 5] \<noteq> vec3 [0, 0, 0]" by (simp add: vec3_def)
  have u: "cross3 (vec3 [0, 1, 0]) (sub3 (vec3 [0, 0, 5]) (vec3 [0, 0, 0])) \<noteq> (0, 0, 0)"
    by (simp add: vec3_def sub3_def cross3_def)
  have z: "lookAt_z [0, 0, 5] [0, 0, 0] = (0, 0, 1)"
    by (simp add: lookAt_z_def Let_def real_sqrt_mult)
  have x: "lookAt_x [0, 0, 5] [0, 0, 0] [0, 1, 0] = (1, 0, 0)"
    by (simp add: lookAt_x_def z Let_def)
  have y: "lookAt_y [0, 0, 5] [0, 0, 0] [0, 1, 0] = (0, 1, 0)"
    by (simp add: lookAt_y_def z x)
  note r = lookAt_rows [OF l, of "[0, 0, 5]" "[0, 0, 0]" "[0, 1, 0]"]
  from lookAt_orthonormal [OF l e u] l e u r x y z
  show ?thesis by simp
qed

section \<open>The normal matrix\<close>


















end
